theory Spec2Isabelle
  imports Complex_Main
begin

section \<open>The camera resource manager (hooks/useCameraManager.ts)\<close>

text \<open>
  A \<open>MediaStream\<close> is a browser object; only its identity and the state of its
  tracks matter here, so a stream is a handle and the tracks live in a store that
  \<open>track.stop()\<close> updates.
\<close>

type_synonym MediaStream = nat

datatype track_state = Live | Ended

text \<open>
  The two constraint sets that the repository passes to \<open>getUserMedia\<close>:
  \<open>{video: {width: {ideal: 1280}, height: {ideal: 720}, facingMode: 'user'}, audio: false}\<close>
  and \<open>{video: true, audio: false}\<close>.
\<close>

datatype constraints = Preferred | Minimal

text \<open>
  What the awaited \<open>getUserMedia\<close> promise does: it resolves with a stream, rejects
  with a \<open>DOMException\<close> of some name, or fails with a value that is not a
  \<open>DOMException\<close>.
\<close>

datatype gum_outcome = Resolved MediaStream | RejectedDOM string | RejectedOther

text \<open>
  The module-level variables \<open>currentConsumer\<close> and \<open>streamInstance\<close>, the track
  store, and two logs that the source does not have: \<open>gumLog\<close> records every call of
  \<open>getUserMedia\<close> and \<open>releaseLog\<close> every call of \<open>releaseCamera\<close>, so that
  "is called once" can be stated.
\<close>

record world =
  currentConsumer :: "string option"
  streamInstance :: "MediaStream option"
  tracks :: "MediaStream \<Rightarrow> track_state list"
  gumLog :: "constraints list"
  releaseLog :: "string list"

text \<open>The state of one instance of the hook: three \<open>useState\<close> cells and one ref.\<close>

record hook =
  isLoading :: bool
  error :: "string option"
  stream :: "MediaStream option"
  consumerIdRef :: "string option"

text \<open>
  JavaScript truthiness of a \<open>string | null\<close>: \<open>null\<close> and the empty string are
  falsy.
\<close>

fun truthy :: "string option \<Rightarrow> bool" where
  "truthy None = False"
| "truthy (Some s) = (s \<noteq> [])"

text \<open>\<open>stream.getTracks().forEach(track => track.stop())\<close>\<close>

definition stopTracks :: "MediaStream \<Rightarrow> world \<Rightarrow> world" where
  "stopTracks s w = w\<lparr>tracks := (tracks w)(s := map (\<lambda>_. Ended) (tracks w s))\<rparr>"

text \<open>
  \<open>requestCamera\<close> is an \<open>async\<close> function with one \<open>await\<close>. The part before the
  \<open>await\<close> runs in the caller's turn: it either returns (\<open>Some r\<close>) or issues the
  \<open>getUserMedia\<close> call and suspends (\<open>None\<close>).
\<close>

definition requestCamera_enter ::
  "world \<Rightarrow> hook \<Rightarrow> string \<Rightarrow> MediaStream option option \<times> world \<times> hook" where
  "requestCamera_enter w h consumerId =
     (let h1 = h\<lparr>consumerIdRef := Some consumerId\<rparr> in
      if currentConsumer w = Some consumerId \<and> streamInstance w \<noteq> None
      then (Some (streamInstance w), w, h1\<lparr>stream := streamInstance w\<rparr>)
      else if truthy (currentConsumer w) \<and> currentConsumer w \<noteq> Some consumerId
      then (Some None, w,
            h1\<lparr>error := Some (''Camera is currently in use by another feature (''
                                @ the (currentConsumer w) @ '').'')\<rparr>)
      else
        let h2 = h1\<lparr>isLoading := True, error := None, stream := None\<rparr>;
            w1 = (case streamInstance w of
                    None \<Rightarrow> w
                  | Some s \<Rightarrow> (stopTracks s w)\<lparr>streamInstance := None\<rparr>)
        in (None, w1\<lparr>gumLog := gumLog w1 @ [Preferred]\<rparr>, h2))"

text \<open>The \<open>catch\<close> branch's choice of message.\<close>

fun cameraErrorMessage :: "gum_outcome \<Rightarrow> string" where
  "cameraErrorMessage (RejectedDOM name) =
     (if name = ''NotAllowedError'' then ''Camera access denied.''
      else if name = ''NotFoundError'' then ''No camera detected.''
      else if name = ''NotReadableError'' then ''Camera is already in use.''
      else ''Camera error: '' @ name)"
| "cameraErrorMessage _ = ''Unable to access camera.''"

text \<open>The continuation after the \<open>await\<close>, run when the promise settles.\<close>

fun requestCamera_resume ::
  "gum_outcome \<Rightarrow> world \<Rightarrow> hook \<Rightarrow> string \<Rightarrow> MediaStream option \<times> world \<times> hook" where
  "requestCamera_resume (Resolved newStream) w h consumerId =
     (Some newStream,
      w\<lparr>streamInstance := Some newStream, currentConsumer := Some consumerId\<rparr>,
      h\<lparr>stream := Some newStream, isLoading := False\<rparr>)"
| "requestCamera_resume err w h consumerId =
     (None,
      w\<lparr>streamInstance := None, currentConsumer := None\<rparr>,
      h\<lparr>error := Some (cameraErrorMessage err), isLoading := False, stream := None\<rparr>)"

text \<open>
  A call that runs to completion before anything else happens; \<open>getUserMedia\<close> is the
  browser's answer to each constraint set.
\<close>

definition requestCamera ::
  "(constraints \<Rightarrow> gum_outcome) \<Rightarrow> world \<Rightarrow> hook \<Rightarrow> string
     \<Rightarrow> MediaStream option \<times> world \<times> hook" where
  "requestCamera getUserMedia w h consumerId =
     (case requestCamera_enter w h consumerId of
        (Some r, w', h') \<Rightarrow> (r, w', h')
      | (None, w', h') \<Rightarrow> requestCamera_resume (getUserMedia Preferred) w' h' consumerId)"

definition releaseCamera :: "world \<Rightarrow> hook \<Rightarrow> string \<Rightarrow> world \<times> hook" where
  "releaseCamera w h consumerId =
     (let w0 = w\<lparr>releaseLog := releaseLog w @ [consumerId]\<rparr> in
      if currentConsumer w = Some consumerId \<and> streamInstance w \<noteq> None
      then ((stopTracks (the (streamInstance w)) w0)
              \<lparr>streamInstance := None, currentConsumer := None\<rparr>,
            h\<lparr>stream := None, error := None, isLoading := False\<rparr>)
      else if consumerIdRef h = Some consumerId
      then (w0, h\<lparr>stream := None, error := None, isLoading := False\<rparr>)
      else (w0, h))"

text \<open>
  Mounting an instance of the hook: the initial values of its cells, and the effect,
  which reads \<open>consumerIdRef.current\<close> into its local \<open>id\<close> when it runs and
  returns the cleanup closed over that value (\<open>captured\<close> below). The effect's only
  dependency is the memoised \<open>releaseCamera\<close>, so it runs once.
\<close>

definition useCameraManager_init :: "world \<Rightarrow> hook" where
  "useCameraManager_init w =
     \<lparr>isLoading = False, error = None, stream = streamInstance w, consumerIdRef = None\<rparr>"

definition useCameraManager_effect :: "hook \<Rightarrow> string option" where
  "useCameraManager_effect h = consumerIdRef h"

definition useCameraManager_cleanup :: "string option \<Rightarrow> world \<Rightarrow> hook \<Rightarrow> world \<times> hook" where
  "useCameraManager_cleanup captured w h =
     (if truthy captured then releaseCamera w h (the captured) else (w, h))"

section \<open>Direct acquisition in the verification dialog (FaceVerification.initializeCamera)\<close>

text \<open>
  The dialog does not go through the manager: it calls \<open>getUserMedia\<close> itself, first
  with the preferred constraint set and, when that fails, with the minimal one.
\<close>

record faceVerification =
  streamRef :: "MediaStream option"
  srcObject :: "MediaStream option"
  errorMessage :: "string option"
  statusMessage :: string

fun verificationErrorMessage :: "gum_outcome \<Rightarrow> string" where
  "verificationErrorMessage (RejectedDOM name) =
     (if name = ''NotAllowedError''
      then ''Camera access denied. Please grant camera permissions and refresh the page.''
      else if name = ''NotFoundError''
      then ''No camera detected. Please connect a camera and try again.''
      else if name = ''NotReadableError''
      then ''Camera is already in use by another application. Please close other applications using the camera and try again.''
      else ''Camera error: '' @ name @ ''. Please ensure your camera is working properly.'')"
| "verificationErrorMessage _ =
     ''Unable to access camera. Please ensure camera permissions are granted.''"

definition attachStream ::
  "bool \<Rightarrow> MediaStream \<Rightarrow> string \<Rightarrow> faceVerification \<Rightarrow> faceVerification" where
  "attachStream videoRefPresent s msg fv =
     fv\<lparr>srcObject := (if videoRefPresent then Some s else srcObject fv),
        streamRef := Some s, statusMessage := msg\<rparr>"

definition initializeCamera ::
  "(constraints \<Rightarrow> gum_outcome) \<Rightarrow> bool \<Rightarrow> world \<Rightarrow> faceVerification
     \<Rightarrow> world \<times> faceVerification" where
  "initializeCamera getUserMedia videoRefPresent w fv =
     (let fv0 = fv\<lparr>errorMessage := None\<rparr>;
          w1 = w\<lparr>gumLog := gumLog w @ [Preferred]\<rparr>
      in case getUserMedia Preferred of
           Resolved s \<Rightarrow>
             (w1, attachStream videoRefPresent s ''Camera initialized. Ready to verify.'' fv0)
         | _ \<Rightarrow>
             (let w2 = w1\<lparr>gumLog := gumLog w1 @ [Minimal]\<rparr>
              in case getUserMedia Minimal of
                   Resolved s \<Rightarrow>
                     (w2, attachStream videoRefPresent s
                            ''Camera initialized with basic settings. Ready to verify.'' fv0)
                 | err \<Rightarrow>
                     (w2, fv0\<lparr>errorMessage := Some (verificationErrorMessage err)\<rparr>)))"

section \<open>The monitoring hook (hooks/useFaceDetection.ts)\<close>

definition LOOKING_AWAY_DURATION_MS :: nat where
  "LOOKING_AWAY_DURATION_MS = 1000"

definition COOLDOWN_PERIOD_MS :: nat where
  "COOLDOWN_PERIOD_MS = 10000"

definition MAX_FACES_ALLOWED :: nat where
  "MAX_FACES_ALLOWED = 1"

definition YAW_THRESHOLD_DEGREES :: rat where
  "YAW_THRESHOLD_DEGREES = 30"

definition PITCH_THRESHOLD_DEGREES :: rat where
  "PITCH_THRESHOLD_DEGREES = 20"

definition GAZE_THRESHOLD_RATIO :: rat where
  "GAZE_THRESHOLD_RATIO = 45 / 100"

definition hookId :: string where
  "hookId = ''faceDetection''"

text \<open>
  The refs and the state cell of the hook. \<open>faceMeshRef\<close> is whether the ref holds a
  detector; \<open>cameraRef\<close> is \<open>None\<close> for \<open>null\<close> and otherwise whether the frame loop
  has been started. \<open>inFlight\<close> and \<open>sendCount\<close> are not in the source: they count
  the \<open>faceMesh.send\<close> calls that have not settled yet, and all of them.
\<close>

record faceDetection =
  isMonitoring :: bool
  faceMeshRef :: bool
  cameraRef :: "bool option"
  isProcessingRef :: bool
  inFlight :: nat
  sendCount :: nat

text \<open>
  What the page and the detector library do during \<open>setupFaceMesh\<close>: whether the
  video element is mounted, whether the two library globals are there, and the first
  statement of the \<open>try\<close> block that throws, if any.
\<close>

datatype setup_failure =
  FaceMeshCtorThrows | FaceMeshConfigThrows | CameraCtorThrows | CameraStartRejects

record setupEnv =
  videoRefPresent :: bool
  faceMeshLib :: bool
  cameraLib :: bool
  failure :: "setup_failure option"

text \<open>
  \<open>setupFaceMesh\<close> closes over \<open>cameraStream\<close>, the stream cell of the render that
  created the callback. Its guard returns when a library global is missing, so the
  script loader and the \<open>throw\<close> behind the same test inside the \<open>try\<close> block are
  never reached. The \<open>stop\<close> of the frame loop belongs to the detector library and
  does not touch the manager's variables.
\<close>

definition setupFaceMesh ::
  "MediaStream option \<Rightarrow> setupEnv \<Rightarrow> faceDetection \<Rightarrow> bool \<times> faceDetection" where
  "setupFaceMesh cameraStream env fd =
     (if cameraStream = None \<or> \<not> videoRefPresent env \<or> \<not> faceMeshLib env \<or> \<not> cameraLib env
      then (False, fd)
      else
        let fd1 = fd\<lparr>cameraRef := None\<rparr> in
        case failure env of
          Some FaceMeshCtorThrows \<Rightarrow> (False, fd1\<lparr>isMonitoring := False\<rparr>)
        | Some FaceMeshConfigThrows \<Rightarrow>
            (False, fd1\<lparr>faceMeshRef := True, isMonitoring := False\<rparr>)
        | Some CameraCtorThrows \<Rightarrow>
            (False, fd1\<lparr>faceMeshRef := True, isMonitoring := False\<rparr>)
        | Some CameraStartRejects \<Rightarrow>
            (False, fd1\<lparr>faceMeshRef := True, cameraRef := Some False, isMonitoring := False\<rparr>)
        | None \<Rightarrow>
            (True, fd1\<lparr>faceMeshRef := True, cameraRef := Some True, isMonitoring := True\<rparr>))"

text \<open>
  \<open>startMonitoring\<close> closes over \<open>isMonitoring\<close> and, through \<open>setupFaceMesh\<close>, over
  \<open>cameraStream\<close>; both are arguments here.
\<close>

definition startMonitoring ::
  "bool \<Rightarrow> MediaStream option \<Rightarrow> (constraints \<Rightarrow> gum_outcome) \<Rightarrow> setupEnv
     \<Rightarrow> world \<Rightarrow> hook \<Rightarrow> faceDetection \<Rightarrow> bool \<times> world \<times> hook \<times> faceDetection" where
  "startMonitoring isMonitoringNow cameraStream getUserMedia env w h fd =
     (if isMonitoringNow then (True, w, h, fd)
      else case requestCamera getUserMedia w h hookId of
             (None, w', h') \<Rightarrow> (False, w', h', fd)
           | (Some s, w', h') \<Rightarrow>
               (let (success, fd') = setupFaceMesh cameraStream env fd
                in (success, w', h', fd')))"

text \<open>The cleanup of the hook's first effect, run on unmount.\<close>

definition useFaceDetection_cleanup ::
  "world \<Rightarrow> hook \<Rightarrow> faceDetection \<Rightarrow> world \<times> hook \<times> faceDetection" where
  "useFaceDetection_cleanup w h fd =
     (let (w', h') = releaseCamera w h hookId
      in (w', h', fd\<lparr>cameraRef := None, isMonitoring := False\<rparr>))"

text \<open>
  The frame callback \<open>onFrame\<close> is \<open>async\<close> with one \<open>await\<close>, of \<open>faceMesh.send\<close>.
  \<open>onFrame_enter\<close> is the part that runs when the frame loop ticks; \<open>onFrame_settle\<close>
  is the \<open>finally\<close> block, run when the pending \<open>send\<close> resolves or rejects.
\<close>

definition onFrame_enter :: "bool \<Rightarrow> nat \<Rightarrow> faceDetection \<Rightarrow> faceDetection" where
  "onFrame_enter videoPresent readyState fd =
     (if \<not> isProcessingRef fd \<and> videoPresent \<and> readyState \<ge> 2 \<and> faceMeshRef fd
      then fd\<lparr>isProcessingRef := True, inFlight := inFlight fd + 1,
              sendCount := sendCount fd + 1\<rparr>
      else fd)"

definition onFrame_settle :: "faceDetection \<Rightarrow> faceDetection" where
  "onFrame_settle fd =
     (if inFlight fd = 0 then fd
      else fd\<lparr>isProcessingRef := False, inFlight := inFlight fd - 1\<rparr>)"

text \<open>
  What the event loop can deliver to the sampler: a tick of the frame loop, with the
  state of the video element at that moment, or the settling of the pending \<open>send\<close>.
\<close>

datatype frame_event = Tick bool nat | Settled

fun frameStep :: "frame_event \<Rightarrow> faceDetection \<Rightarrow> faceDetection" where
  "frameStep (Tick videoPresent readyState) fd = onFrame_enter videoPresent readyState fd"
| "frameStep Settled fd = onFrame_settle fd"

fun runFrames :: "frame_event list \<Rightarrow> faceDetection \<Rightarrow> faceDetection" where
  "runFrames [] fd = fd"
| "runFrames (e # es) fd = runFrames es (frameStep e fd)"

section \<open>The violation state machine\<close>

text \<open>
  The source registers the callback
  \<open>faceMeshRef.current.onResults((results) => { /* ... onResults logic ... */ })\<close>
  and the component that the tests exercise (FaceAttentionChecker) is not among the
  source files, so the per-kind state machine is taken from section 4.3 of the
  specification. The two durations are the constants of the hook above.
\<close>

text \<open>
  Modelled from the spec: the enumeration \<open>ViolationKind\<close> of section 3; its
  declaration is not among the source files.
\<close>

datatype ViolationKind = FACE_NOT_DETECTED | MULTIPLE_FACES | LOOKING_AWAY | TAB_SWITCHING

text \<open>
  Modelled from the spec: the four states of the per-kind machine of section 4.3.
\<close>

datatype TrackPhase = INACTIVE | ACCUMULATING | CONFIRMED | COOLDOWN

text \<open>
  Modelled from the spec: \<open>ViolationTrackState\<close> of section 3, with the state of
  the machine and the start time that section 4.3 says is tracked.
\<close>

record ViolationTrackState =
  phase :: TrackPhase
  activeSince :: nat
  consecutiveActiveDurationMs :: nat
  lastReportedAt :: "nat option"
  occurrenceCount :: nat

text \<open>
  Modelled from the spec: the configuration surface of section 6 as far as the
  machine reads it. The defaults are the constants of the hook.
\<close>

record monitorConfig =
  allowedFaceCount :: nat
  yawThreshold :: rat
  pitchThreshold :: rat
  gazeThreshold :: rat
  sustainedDurationMs :: nat
  cooldownMs :: nat

definition defaultConfig :: monitorConfig where
  "defaultConfig =
     \<lparr>allowedFaceCount = MAX_FACES_ALLOWED,
      yawThreshold = YAW_THRESHOLD_DEGREES,
      pitchThreshold = PITCH_THRESHOLD_DEGREES,
      gazeThreshold = GAZE_THRESHOLD_RATIO,
      sustainedDurationMs = LOOKING_AWAY_DURATION_MS,
      cooldownMs = COOLDOWN_PERIOD_MS\<rparr>"

text \<open>
  Modelled from the spec: \<open>FrameObservation\<close> of section 3. The yaw, pitch and gaze
  estimates of the primary face are given with the frame: how they are computed from
  landmarks is left open by the specification. The specification names the kind
  \<open>TAB_SWITCHING\<close> without a per-frame condition; whether it is active is given
  with the frame too.
\<close>

record FrameObservation =
  timestamp :: nat
  faceCount :: nat
  yaw :: rat
  pitch :: rat
  gazeOffset :: rat
  tabHidden :: bool

text \<open>
  Modelled from the spec: the per-frame condition of each kind ("Per FrameObservation,
  for each enabled check, compute a boolean"); the source has no code for it.
\<close>

fun conditionActive :: "monitorConfig \<Rightarrow> FrameObservation \<Rightarrow> ViolationKind \<Rightarrow> bool" where
  "conditionActive cfg f FACE_NOT_DETECTED = (faceCount f = 0)"
| "conditionActive cfg f MULTIPLE_FACES = (faceCount f > allowedFaceCount cfg)"
| "conditionActive cfg f LOOKING_AWAY =
     (\<bar>yaw f\<bar> > yawThreshold cfg \<or> \<bar>pitch f\<bar> > pitchThreshold cfg
      \<or> gazeOffset f > gazeThreshold cfg)"
| "conditionActive cfg f TAB_SWITCHING = tabHidden f"

text \<open>
  Modelled from the spec: the transitions of one kind's state machine on a sample
  taken at time \<open>t\<close> (the body of the \<open>onResults\<close> callback is missing from the
  source). \<open>observe\<close> makes the transitions that depend on the condition and the
  clock; a machine that reaches \<open>CONFIRMED\<close> is then fired by \<open>fire\<close>, which yields
  the one report and enters the cooldown.
\<close>

definition observe ::
  "monitorConfig \<Rightarrow> nat \<Rightarrow> bool \<Rightarrow> ViolationTrackState \<Rightarrow> ViolationTrackState" where
  "observe cfg t active st =
     (case phase st of
        INACTIVE \<Rightarrow>
          if active
          then st\<lparr>phase := ACCUMULATING, activeSince := t, consecutiveActiveDurationMs := 0\<rparr>
          else st
      | ACCUMULATING \<Rightarrow>
          if \<not> active then st\<lparr>phase := INACTIVE, consecutiveActiveDurationMs := 0\<rparr>
          else if t - activeSince st \<ge> sustainedDurationMs cfg
          then st\<lparr>phase := CONFIRMED, consecutiveActiveDurationMs := t - activeSince st\<rparr>
          else st\<lparr>consecutiveActiveDurationMs := t - activeSince st\<rparr>
      | CONFIRMED \<Rightarrow> st
      | COOLDOWN \<Rightarrow>
          (case lastReportedAt st of
             None \<Rightarrow> st\<lparr>phase := INACTIVE, consecutiveActiveDurationMs := 0\<rparr>
           | Some r \<Rightarrow>
               if t - r \<ge> cooldownMs cfg
               then st\<lparr>phase := INACTIVE, consecutiveActiveDurationMs := 0\<rparr>
               else st))"

text \<open>
  Modelled from the spec: "\<open>CONFIRMED\<close> triggers exactly one report, then transitions
  to \<open>COOLDOWN\<close>". The boolean says whether a report is due.
\<close>

definition fire :: "nat \<Rightarrow> ViolationTrackState \<Rightarrow> ViolationTrackState \<times> bool" where
  "fire t st =
     (if phase st = CONFIRMED
      then (st\<lparr>phase := COOLDOWN, lastReportedAt := Some t,
               occurrenceCount := occurrenceCount st + 1\<rparr>, True)
      else (st, False))"

text \<open>
  Modelled from the spec: one sample moves the machine and says whether a report is
  due.
\<close>

definition trackStep ::
  "monitorConfig \<Rightarrow> nat \<Rightarrow> bool \<Rightarrow> ViolationTrackState \<Rightarrow> ViolationTrackState \<times> bool" where
  "trackStep cfg t active st = fire t (observe cfg t active st)"

text \<open>
  Modelled from the spec: a monitoring session, which owns one track state per kind.
  The two observable effects of the reporter of section 4.4 are logs: the kinds sent
  to the reporting service and the kinds passed to the \<open>onViolationDetected\<close>
  callback.
\<close>

record session =
  trackOf :: "ViolationKind \<Rightarrow> ViolationTrackState"
  serviceCalls :: "ViolationKind list"
  callbackCalls :: "ViolationKind list"

text \<open>
  Modelled from the spec: the initial state of every machine is \<open>INACTIVE\<close>, and a
  session starts with nothing reported.
\<close>

definition initialTrack :: ViolationTrackState where
  "initialTrack =
     \<lparr>phase = INACTIVE, activeSince = 0, consecutiveActiveDurationMs = 0,
      lastReportedAt = None, occurrenceCount = 0\<rparr>"

definition initialSession :: session where
  "initialSession = \<lparr>trackOf = (\<lambda>_. initialTrack), serviceCalls = [], callbackCalls = []\<rparr>"

text \<open>
  Modelled from the spec: a confirmed violation is sent to the service and passed to
  the callback (the reporter is not among the source files).
\<close>

definition report :: "ViolationKind \<Rightarrow> session \<Rightarrow> session" where
  "report k s = s\<lparr>serviceCalls := serviceCalls s @ [k], callbackCalls := callbackCalls s @ [k]\<rparr>"

text \<open>
  Modelled from the spec: a frame is applied to each kind's machine in turn, and each
  confirmed violation is reported.
\<close>

definition applyKind :: "monitorConfig \<Rightarrow> FrameObservation \<Rightarrow> ViolationKind \<Rightarrow> session \<Rightarrow> session" where
  "applyKind cfg f k s =
     (let (st, due) = trackStep cfg (timestamp f) (conditionActive cfg f k) (trackOf s k);
          s1 = s\<lparr>trackOf := (trackOf s)(k := st)\<rparr>
      in if due then report k s1 else s1)"

definition allKinds :: "ViolationKind list" where
  "allKinds = [FACE_NOT_DETECTED, MULTIPLE_FACES, LOOKING_AWAY, TAB_SWITCHING]"

definition processFrame :: "monitorConfig \<Rightarrow> FrameObservation \<Rightarrow> session \<Rightarrow> session" where
  "processFrame cfg f s = fold (applyKind cfg f) allKinds s"

fun processFrames :: "monitorConfig \<Rightarrow> FrameObservation list \<Rightarrow> session \<Rightarrow> session" where
  "processFrames cfg [] s = s"
| "processFrames cfg (f # fs) s = processFrames cfg fs (processFrame cfg f s)"

text \<open>
  How many reports of one kind there are in each log: calls to the service, and calls
  of the callback.
\<close>

definition reportsOf :: "ViolationKind \<Rightarrow> session \<Rightarrow> nat \<times> nat" where
  "reportsOf k s =
     (length (filter (\<lambda>x. x = k) (serviceCalls s)), length (filter (\<lambda>x. x = k) (callbackCalls s)))"

section \<open>The student service (services/studentService.ts)\<close>

text \<open>
  An HTTP call either yields the response body or fails (network error or a status
  that the client rejects). A thrown \<open>new Error(message)\<close> is \<open>Error message\<close>.
\<close>

datatype 'a http_outcome = HttpOk 'a | HttpFail

datatype js_error = Error string

record WebcamEvent =
  eventType :: string
  eventTimestamp :: string
  details :: string

record monitorAck =
  received :: bool
  severity :: string
  message :: string

definition submitWebcamMonitorEvent ::
  "(string \<Rightarrow> WebcamEvent \<Rightarrow> monitorAck http_outcome) \<Rightarrow> string \<Rightarrow> WebcamEvent
     \<Rightarrow> js_error + monitorAck" where
  "submitWebcamMonitorEvent post attemptId webcamEventData =
     (case post (''/student/attempts/'' @ attemptId @ ''/monitor'') webcamEventData of
        HttpOk resData \<Rightarrow> Inr resData
      | HttpFail \<Rightarrow> Inl (Error ''Failed to submit webcam monitor event''))"

text \<open>
  A JavaScript string is a sequence of UTF-16 code units. The names that are compared
  may hold any letter, so they are sequences of code units, not 8-bit characters.
\<close>

type_synonym jsstring = "nat list"

text \<open>
  The recognition response (types/FaceVerificationTypes.ts). A JavaScript number is an
  IEEE double; \<open>confidence\<close> is the exact value of the double that the response's
  number was parsed to, and \<open>>=\<close> on finite doubles is the order of these values.
\<close>

record FaceVerificationResponse =
  faceId :: string
  name :: jsstring
  confidence :: rat
  registered_at :: string

record VerifiedResponse = FaceVerificationResponse +
  verified :: bool
  nameMatches :: bool

datatype recognition_data =
  DataArray "FaceVerificationResponse list" | DataObject FaceVerificationResponse

text \<open>
  \<open>const CONFIDENCE_THRESHOLD = 0.7\<close>: the value of the literal is the double nearest
  to seven tenths, 3152519739159347 / 4503599627370496 (the denominator is 2 to the
  power 52), which is what a response's \<open>0.7\<close> is parsed to as well.
\<close>

definition CONFIDENCE_THRESHOLD :: rat where
  "CONFIDENCE_THRESHOLD = 3152519739159347 / 4503599627370496"

text \<open>
  \<open>Array.isArray(res.data) && res.data.length > 0 ? res.data[0] : res.data\<close>. For
  the empty array the value is the array itself, which has no \<open>name\<close>: that is
  \<open>None\<close>, and reading \<open>responseData.name.toLowerCase()\<close> then throws a
  \<open>TypeError\<close>, which the \<open>catch\<close> turns into the function's own error.
\<close>

fun responseData :: "recognition_data \<Rightarrow> FaceVerificationResponse option" where
  "responseData (DataArray []) = None"
| "responseData (DataArray (r # rs)) = Some r"
| "responseData (DataObject r) = Some r"

text \<open>
  \<open>String.prototype.toLowerCase\<close> belongs to the JavaScript engine, not to the
  repository: it is the argument \<open>toLowerCase\<close>, and what is proved holds for every
  such function.
\<close>

definition verifyFaceIdentity ::
  "(jsstring \<Rightarrow> jsstring) \<Rightarrow> recognition_data http_outcome \<Rightarrow> jsstring
     \<Rightarrow> js_error + VerifiedResponse" where
  "verifyFaceIdentity toLowerCase res expectedName =
     (case res of
        HttpFail \<Rightarrow> Inl (Error ''Failed to verify face identity'')
      | HttpOk resData \<Rightarrow>
          (case responseData resData of
             None \<Rightarrow> Inl (Error ''Failed to verify face identity'')
           | Some r \<Rightarrow>
               (let matches = (toLowerCase (name r) = toLowerCase expectedName)
                in Inr (FaceVerificationResponse.extend r
                          (VerifiedResponse.fields
                             (confidence r \<ge> CONFIDENCE_THRESHOLD \<and> matches) matches)))))"

section \<open>The violation reporter\<close>

text \<open>
  What the reporter keeps: the messages it has logged locally and the kinds it has
  passed to the host's callback.
\<close>

record reporter =
  localLog :: "string list"
  callbackLog :: "string list"

text \<open>
  Modelled from the spec: the operation \<open>report(kind, details)\<close> of section 4.4. The
  component that implements it (FaceAttentionChecker) is not among the source files;
  its test shows that it delivers through \<open>studentService.submitWebcamMonitorEvent\<close>.
  The callback is invoked with the kind before the delivery is awaited; the delivery
  is made in a \<open>try\<close> whose \<open>catch\<close> logs the error locally and swallows it, so the
  result is the acknowledgement when there is one and nothing otherwise.
\<close>

definition reportViolation ::
  "(string \<Rightarrow> WebcamEvent \<Rightarrow> monitorAck http_outcome) \<Rightarrow> string \<Rightarrow> string \<Rightarrow> string
     \<Rightarrow> string \<Rightarrow> reporter \<Rightarrow> (js_error + monitorAck option) \<times> reporter" where
  "reportViolation post attemptId kind timestampNow detail rp =
     (let rp1 = rp\<lparr>callbackLog := callbackLog rp @ [kind]\<rparr>
      in case submitWebcamMonitorEvent post attemptId
                \<lparr>eventType = kind, eventTimestamp = timestampNow, details = detail\<rparr> of
           Inr ack \<Rightarrow> (Inr (Some ack), rp1)
         | Inl (Error msg) \<Rightarrow> (Inr None, rp1\<lparr>localLog := localLog rp1 @ [msg]\<rparr>))"

section \<open>Concrete states and environments\<close>

text \<open>
  The module as loaded: no consumer, no stream, no call made yet. Every stream that
  the browser hands out has one live video track (\<open>audio: false\<close>).
\<close>

definition world0 :: world where
  "world0 = \<lparr>currentConsumer = None, streamInstance = None, tracks = (\<lambda>_. [Live]),
             gumLog = [], releaseLog = []\<rparr>"

text \<open>A browser that grants every request with the stream \<open>s\<close>.\<close>

definition grantStream :: "MediaStream \<Rightarrow> constraints \<Rightarrow> gum_outcome" where
  "grantStream s c = Resolved s"

text \<open>
  A browser that cannot start the camera with the preferred constraint set
  (\<open>NotReadableError\<close>) and grants the minimal one with the stream \<open>s\<close>.
\<close>

definition preferredFails :: "MediaStream \<Rightarrow> constraints \<Rightarrow> gum_outcome" where
  "preferredFails s c =
     (case c of Preferred \<Rightarrow> RejectedDOM ''NotReadableError'' | Minimal \<Rightarrow> Resolved s)"

text \<open>
  The module after a freshly mounted hook instance has requested the camera as \<open>c\<close>
  and been granted the stream \<open>s\<close>.
\<close>

definition heldBy :: "string \<Rightarrow> MediaStream \<Rightarrow> world" where
  "heldBy c s =
     fst (snd (requestCamera (grantStream s) world0 (useCameraManager_init world0) c))"

text \<open>The hook instance that made that request, as the request left it.\<close>

definition hookAfter :: "string \<Rightarrow> MediaStream \<Rightarrow> hook" where
  "hookAfter c s =
     snd (snd (requestCamera (grantStream s) world0 (useCameraManager_init world0) c))"

text \<open>
  A hook instance that was mounted while \<open>faceRegistration\<close> held stream 1 and whose
  request as \<open>faceDetection\<close> was denied.
\<close>

definition deniedHook :: hook where
  "deniedHook =
     snd (snd (requestCamera (grantStream 2) (heldBy ''faceRegistration'' 1)
                 (useCameraManager_init (heldBy ''faceRegistration'' 1)) ''faceDetection''))"

text \<open>The verification dialog and the monitoring hook as mounted.\<close>

definition fv0 :: faceVerification where
  "fv0 = \<lparr>streamRef = None, srcObject = None, errorMessage = None,
          statusMessage = ''Position your face in the frame''\<rparr>"

definition fd0 :: faceDetection where
  "fd0 = \<lparr>isMonitoring = False, faceMeshRef = False, cameraRef = None,
          isProcessingRef = False, inFlight = 0, sendCount = 0\<rparr>"

text \<open>The monitoring hook after a successful \<open>setupFaceMesh\<close>.\<close>

definition fdReady :: faceDetection where
  "fdReady = fd0\<lparr>isMonitoring := True, faceMeshRef := True, cameraRef := Some True\<rparr>"

text \<open>A page where the libraries are loaded and the detector's constructor throws.\<close>

definition detectorThrows :: setupEnv where
  "detectorThrows = \<lparr>videoRefPresent = True, faceMeshLib = True, cameraLib = True,
                     failure = Some FaceMeshCtorThrows\<rparr>"

text \<open>
  The invariant of the sampler: the flag \<open>isProcessingRef\<close> is set exactly while one
  \<open>send\<close> is pending, and never more than one is.
\<close>

definition samplerInv :: "faceDetection \<Rightarrow> bool" where
  "samplerInv fd = (if isProcessingRef fd then inFlight fd = 1 else inFlight fd = 0)"

text \<open>A frame at time \<open>t\<close> (in ms) with \<open>n\<close> faces looking straight at the screen.\<close>

definition frameAt :: "nat \<Rightarrow> nat \<Rightarrow> FrameObservation" where
  "frameAt t n = \<lparr>timestamp = t, faceCount = n, yaw = 0, pitch = 0, gazeOffset = 0,
                  tabHidden = False\<rparr>"

text \<open>A network that is down, and a server that acknowledges every event.\<close>

definition networkDown :: "string \<Rightarrow> WebcamEvent \<Rightarrow> monitorAck http_outcome" where
  "networkDown url ev = HttpFail"

definition serverAcks :: "string \<Rightarrow> WebcamEvent \<Rightarrow> monitorAck http_outcome" where
  "serverAcks url ev = HttpOk \<lparr>received = True, severity = ''low'', message = ''ok''\<rparr>"

definition sampleEvent :: WebcamEvent where
  "sampleEvent = \<lparr>eventType = ''FACE_NOT_DETECTED'', eventTimestamp = ''2025-05-15T10:30:00Z'',
                  details = ''''\<rparr>"

text \<open>
  Lower-casing of code units below 256 (ASCII and Latin-1: \<open>A\<close> to \<open>Z\<close>, and
  U+00C0 to U+00DE without the multiplication sign U+00D7, move up by 32), which is
  what \<open>String.prototype.toLowerCase\<close> does on such strings; other code units are
  left alone. It stands for the engine's function in the concrete inputs below, which
  use no other code unit.
\<close>

definition latin1LowerUnit :: "nat \<Rightarrow> nat" where
  "latin1LowerUnit u =
     (if (65 \<le> u \<and> u \<le> 90) \<or> (192 \<le> u \<and> u \<le> 222 \<and> u \<noteq> 215) then u + 32 else u)"

definition latin1ToLowerCase :: "jsstring \<Rightarrow> jsstring" where
  "latin1ToLowerCase s = map latin1LowerUnit s"

text \<open>
  The name \<open>JOSE\<close> with an acute accent on its last letter, in upper case and in
  lower case, as code units (the accented letter is U+00C9, 201, in upper case and
  U+00E9, 233, in lower case), and another name, \<open>Ana\<close>.
\<close>

definition nameUpper :: jsstring where
  "nameUpper = [74, 79, 83, 201]"

definition nameLower :: jsstring where
  "nameLower = [106, 111, 115, 233]"

definition nameOther :: jsstring where
  "nameOther = [65, 110, 97]"

text \<open>
  A registered face with the accented name in lower case that the recognition service
  matched with confidence \<open>c\<close>, and a second registered face, named \<open>Ana\<close>.
\<close>

definition registeredFace :: "rat \<Rightarrow> FaceVerificationResponse" where
  "registeredFace c = \<lparr>faceId = ''u-17'', name = nameLower, confidence = c,
                        registered_at = ''2025-05-15T10:30:00Z''\<rparr>"

definition otherFace :: FaceVerificationResponse where
  "otherFace = \<lparr>faceId = ''u-18'', name = nameOther, confidence = 99 / 100,
                 registered_at = ''2025-05-16T08:00:00Z''\<rparr>"

text \<open>The reporter before any report.\<close>

definition reporter0 :: reporter where
  "reporter0 = \<lparr>localLog = [], callbackLog = []\<rparr>"

text \<open>
  Two requests that overlap: \<open>faceDetection\<close> enters and waits for the browser,
  \<open>faceRegistration\<close> enters while that call is pending, then the browser grants
  stream 1 to the first and stream 2 to the second. The value is what the two calls
  returned and the module state at the end.
\<close>

definition overlappingRequests :: "MediaStream option \<times> MediaStream option \<times> world" where
  "overlappingRequests =
     (case requestCamera_enter world0 (useCameraManager_init world0) ''faceDetection'' of
        (_, w1, hA) \<Rightarrow>
     (case requestCamera_enter w1 (useCameraManager_init world0) ''faceRegistration'' of
        (_, w2, hB) \<Rightarrow>
     (case requestCamera_resume (Resolved 1) w2 hA ''faceDetection'' of
        (rA, w3, _) \<Rightarrow>
     (case requestCamera_resume (Resolved 2) w3 hB ''faceRegistration'' of
        (rB, w4, _) \<Rightarrow> (rA, rB, w4)))))"

section \<open>Properties of the camera manager\<close>

lemma requestCamera_holder:
  "currentConsumer w = Some c \<Longrightarrow> streamInstance w = Some s \<Longrightarrow>
   requestCamera g w h c = (Some s, w, h\<lparr>consumerIdRef := Some c, stream := Some s\<rparr>)"
  by (simp add: requestCamera_def requestCamera_enter_def)

lemma requestCamera_denied:
  "currentConsumer w = Some a \<Longrightarrow> a \<noteq> [] \<Longrightarrow> a \<noteq> b \<Longrightarrow>
   requestCamera g w h b =
     (None, w, h\<lparr>consumerIdRef := Some b,
                  error := Some (''Camera is currently in use by another feature ('' @ a @ '').'')\<rparr>)"
  by (simp add: requestCamera_def requestCamera_enter_def)

lemma requestCamera_Some_lease:
  assumes "requestCamera g w h c = (Some s, w', h')"
  shows "currentConsumer w' = Some c \<and> streamInstance w' = Some s"
proof (cases "currentConsumer w = Some c \<and> streamInstance w \<noteq> None")
  case True
  with assms show ?thesis
    by (auto simp: requestCamera_def requestCamera_enter_def)
next
  case False
  note nh = this
  show ?thesis
  proof (cases "truthy (currentConsumer w) \<and> currentConsumer w \<noteq> Some c")
    case True
    with nh assms show ?thesis
      by (simp add: requestCamera_def requestCamera_enter_def)
  next
    case False
    with nh assms show ?thesis
      by (cases "g Preferred")
         (auto simp: requestCamera_def requestCamera_enter_def Let_def split: option.splits)
  qed
qed

lemma heldBy_simps:
  "currentConsumer (heldBy c s) = Some c" "streamInstance (heldBy c s) = Some s"
  "tracks (heldBy c s) = (\<lambda>_. [Live])" "gumLog (heldBy c s) = [Preferred]"
  "releaseLog (heldBy c s) = []"
  by (simp_all add: heldBy_def requestCamera_def requestCamera_enter_def world0_def
        useCameraManager_init_def grantStream_def)

text \<open>
  A holder whose id is not the empty string is not preempted. When \<open>requestCamera(a)\<close>
  has returned a stream and \<open>a\<close> is not empty, a following \<open>requestCamera(b)\<close> with
  \<open>b \<noteq> a\<close>, from any hook instance and whatever the browser would answer, returns
  \<open>null\<close>, sets that instance's error to the "camera in use" message naming \<open>a\<close>, and
  leaves the module state (consumer, stream, tracks, logs) exactly as it was.
\<close>

lemma nonempty_holder_not_preempted:
  assumes "requestCamera g1 w hA a = (Some s, w1, hA1)" and "a \<noteq> b" and "a \<noteq> []"
  shows "requestCamera g2 w1 hB b =
           (None, w1,
            hB\<lparr>consumerIdRef := Some b,
               error := Some (''Camera is currently in use by another feature ('' @ a @ '').'')\<rparr>)
         \<and> currentConsumer w1 = Some a \<and> streamInstance w1 = Some s"
proof -
  from assms(1) have l: "currentConsumer w1 = Some a" "streamInstance w1 = Some s"
    using requestCamera_Some_lease by blast+
  from l(1) assms(3) assms(2) show ?thesis
    by (simp add: requestCamera_denied l)
qed

text \<open>
  C1, the code at the failing input. The claim is that after \<open>requestCamera(A)\<close> a
  \<open>requestCamera(B)\<close> with another id and no release in between returns \<open>null\<close> and
  leaves A's lease alone. With the empty string as A it does not: the module records
  \<open>currentConsumer = ''\<close> with stream 1 (and the tests with \<open>===\<close> let that consumer
  ask again and release), but the guard \<open>currentConsumer && currentConsumer !==
  consumerId\<close> reads the empty string as nobody. \<open>requestCamera('faceDetection')\<close> is
  granted stream 2 and takes the lease, and stream 1's track is stopped.
\<close>

theorem empty_id_holder_is_preempted:
  "fst (requestCamera (grantStream 1) world0 (useCameraManager_init world0) '''') = Some 1
   \<and> currentConsumer (heldBy '''' 1) = Some ''''
   \<and> streamInstance (heldBy '''' 1) = Some 1
   \<and> fst (requestCamera (grantStream 2) (heldBy '''' 1) (useCameraManager_init (heldBy '''' 1))
            ''faceDetection'') = Some 2
   \<and> currentConsumer (fst (snd (requestCamera (grantStream 2) (heldBy '''' 1)
            (useCameraManager_init (heldBy '''' 1)) ''faceDetection''))) = Some ''faceDetection''
   \<and> streamInstance (fst (snd (requestCamera (grantStream 2) (heldBy '''' 1)
            (useCameraManager_init (heldBy '''' 1)) ''faceDetection''))) = Some 2
   \<and> tracks (fst (snd (requestCamera (grantStream 2) (heldBy '''' 1)
            (useCameraManager_init (heldBy '''' 1)) ''faceDetection''))) 1 = [Ended]"
  by (simp add: requestCamera_def requestCamera_enter_def heldBy_simps grantStream_def
        useCameraManager_init_def world0_def stopTracks_def)

text \<open>
  The same consumer with the empty id is a holder for the other two tests: it gets its
  stream back when it asks again, and its release clears the lease.
\<close>

lemma empty_id_holder_is_a_holder:
  "fst (requestCamera (grantStream 2) (heldBy '''' 1) (useCameraManager_init (heldBy '''' 1)) '''')
     = Some 1"
  "currentConsumer (fst (releaseCamera (heldBy '''' 1) (useCameraManager_init (heldBy '''' 1)) ''''))
     = None"
  "tracks (fst (releaseCamera (heldBy '''' 1) (useCameraManager_init (heldBy '''' 1)) '''')) 1
     = [Ended]"
  by (simp_all add: requestCamera_def requestCamera_enter_def releaseCamera_def heldBy_simps
        stopTracks_def)

text \<open>
  C4. When \<open>requestCamera(a)\<close> has returned a stream \<open>s\<close>, calling \<open>requestCamera(a)\<close>
  again (no release in between) returns the same \<open>s\<close> and changes nothing in the
  module state, so it makes no \<open>getUserMedia\<close> call; and the first call made exactly
  one \<open>getUserMedia\<close> call, with the preferred constraints, unless \<open>a\<close> already held
  the lease, in which case it made none.
\<close>

theorem idempotent_rerequest:
  assumes "requestCamera g1 w h a = (Some s, w1, h1)"
  shows "requestCamera g2 w1 h2 a = (Some s, w1, h2\<lparr>consumerIdRef := Some a, stream := Some s\<rparr>)
         \<and> gumLog w1 =
             (if currentConsumer w = Some a \<and> streamInstance w \<noteq> None then gumLog w
              else gumLog w @ [Preferred])"
proof -
  from assms have l: "currentConsumer w1 = Some a" "streamInstance w1 = Some s"
    using requestCamera_Some_lease by blast+
  have second: "requestCamera g2 w1 h2 a
                  = (Some s, w1, h2\<lparr>consumerIdRef := Some a, stream := Some s\<rparr>)"
    by (rule requestCamera_holder [OF l])
  have log: "gumLog w1 =
      (if currentConsumer w = Some a \<and> streamInstance w \<noteq> None then gumLog w
       else gumLog w @ [Preferred])"
  proof (cases "currentConsumer w = Some a \<and> streamInstance w \<noteq> None")
    case True
    with assms show ?thesis
      by (auto simp: requestCamera_def requestCamera_enter_def)
  next
    case False
    note nh = this
    show ?thesis
    proof (cases "truthy (currentConsumer w) \<and> currentConsumer w \<noteq> Some a")
      case True
      with nh assms show ?thesis
        by (simp add: requestCamera_def requestCamera_enter_def)
    next
      case False
      with nh assms show ?thesis
        by (cases "g1 Preferred")
           (auto simp: requestCamera_def requestCamera_enter_def Let_def stopTracks_def
                 split: option.splits)
    qed
  qed
  from second log show ?thesis by simp
qed

lemma hookAfter_eq:
  "hookAfter c s = \<lparr>isLoading = False, error = None, stream = Some s, consumerIdRef = Some c\<rparr>"
  by (simp add: hookAfter_def requestCamera_def requestCamera_enter_def world0_def
        useCameraManager_init_def grantStream_def)

lemma request_world0:
  "requestCamera (grantStream s) world0 (useCameraManager_init world0) c
     = (Some s, heldBy c s, hookAfter c s)"
  by (simp add: heldBy_def hookAfter_def requestCamera_def requestCamera_enter_def world0_def
        useCameraManager_init_def grantStream_def)

text \<open>The holder asks again, through the hook instance that made the request.\<close>

lemma rerequest_held:
  "requestCamera g (heldBy c s) (hookAfter c s) c = (Some s, heldBy c s, hookAfter c s)"
  by (simp add: requestCamera_holder [where s = s] heldBy_simps hookAfter_eq)

text \<open>
  C4 at a concrete input: \<open>faceDetection\<close> was granted stream 1 from the initial
  state, with one \<open>getUserMedia\<close> call; it asks again and gets stream 1 again, although
  the browser would now hand out stream 2.
\<close>

theorem idempotent_rerequest_witness:
  "requestCamera (grantStream 2) (heldBy ''faceDetection'' 1) (hookAfter ''faceDetection'' 1)
      ''faceDetection''
     = (Some 1, heldBy ''faceDetection'' 1, hookAfter ''faceDetection'' 1)
   \<and> gumLog (heldBy ''faceDetection'' 1) = [Preferred]"
  using idempotent_rerequest [OF request_world0 [of 1 "''faceDetection''"], of "grantStream 2"
      "hookAfter ''faceDetection'' 1"]
  by (simp add: hookAfter_eq world0_def)

text \<open>
  The theorems above are about calls that run to completion one after the other. A
  request that enters while another consumer's \<open>getUserMedia\<close> call is still
  pending finds no consumer recorded yet and issues a call of its own: both calls
  return a stream, the second one's consumer ends up as the holder, and the first
  stream is left live with no variable referring to it.
\<close>

lemma overlapping_requests_both_granted:
  "fst overlappingRequests = Some 1"
  "fst (snd overlappingRequests) = Some 2"
  "currentConsumer (snd (snd overlappingRequests)) = Some ''faceRegistration''"
  "streamInstance (snd (snd overlappingRequests)) = Some 2"
  "tracks (snd (snd overlappingRequests)) 1 = [Live]"
  "gumLog (snd (snd overlappingRequests)) = [Preferred, Preferred]"
  by (simp_all add: overlappingRequests_def requestCamera_enter_def world0_def
        useCameraManager_init_def)

text \<open>The two branches of \<open>releaseCamera\<close>, as equations.\<close>

lemma releaseCamera_holder:
  assumes "currentConsumer w = Some c" and "streamInstance w = Some s"
  shows "releaseCamera w h c =
           (w\<lparr>releaseLog := releaseLog w @ [c],
              tracks := (tracks w)(s := map (\<lambda>_. Ended) (tracks w s)),
              streamInstance := None, currentConsumer := None\<rparr>,
            h\<lparr>stream := None, error := None, isLoading := False\<rparr>)"
  using assms by (simp add: releaseCamera_def stopTracks_def Let_def)

lemma releaseCamera_other:
  assumes "\<not> (currentConsumer w = Some c \<and> streamInstance w \<noteq> None)"
  shows "releaseCamera w h c =
           (w\<lparr>releaseLog := releaseLog w @ [c]\<rparr>,
            if consumerIdRef h = Some c
            then h\<lparr>stream := None, error := None, isLoading := False\<rparr> else h)"
  using assms by (auto simp: releaseCamera_def Let_def)

text \<open>
  C5 (amended). \<open>releaseCamera(c)\<close> by the lease holder stops every track of the
  stream (each one is ended, none is added or dropped), clears \<open>currentConsumer\<close>
  and \<open>streamInstance\<close>, and resets the calling instance's stream, error and
  loading cells. By anyone else it leaves the lease, the
  stream and the tracks as they are; it resets the calling instance's three cells when
  \<open>c\<close> is the id that this instance last requested with (\<open>consumerIdRef\<close>), and
  otherwise leaves them as they are too.
\<close>

theorem releaseCamera_semantics:
  "(currentConsumer w = Some c \<and> streamInstance w = Some s \<longrightarrow>
      releaseCamera w h c =
        (w\<lparr>releaseLog := releaseLog w @ [c],
           tracks := (tracks w)(s := map (\<lambda>_. Ended) (tracks w s)),
           streamInstance := None, currentConsumer := None\<rparr>,
         h\<lparr>stream := None, error := None, isLoading := False\<rparr>)
      \<and> set (tracks (fst (releaseCamera w h c)) s) \<subseteq> {Ended}
      \<and> length (tracks (fst (releaseCamera w h c)) s) = length (tracks w s))
   \<and> (\<not> (currentConsumer w = Some c \<and> streamInstance w \<noteq> None) \<longrightarrow>
        currentConsumer (fst (releaseCamera w h c)) = currentConsumer w
        \<and> streamInstance (fst (releaseCamera w h c)) = streamInstance w
        \<and> tracks (fst (releaseCamera w h c)) = tracks w
        \<and> snd (releaseCamera w h c) =
            (if consumerIdRef h = Some c
             then h\<lparr>stream := None, error := None, isLoading := False\<rparr> else h))"
proof (intro conjI impI)
  assume holder: "currentConsumer w = Some c \<and> streamInstance w = Some s"
  then have eq: "releaseCamera w h c =
        (w\<lparr>releaseLog := releaseLog w @ [c],
           tracks := (tracks w)(s := map (\<lambda>_. Ended) (tracks w s)),
           streamInstance := None, currentConsumer := None\<rparr>,
         h\<lparr>stream := None, error := None, isLoading := False\<rparr>)"
    by (simp add: releaseCamera_holder)
  show "releaseCamera w h c =
        (w\<lparr>releaseLog := releaseLog w @ [c],
           tracks := (tracks w)(s := map (\<lambda>_. Ended) (tracks w s)),
           streamInstance := None, currentConsumer := None\<rparr>,
         h\<lparr>stream := None, error := None, isLoading := False\<rparr>)"
    by (rule eq)
  show "set (tracks (fst (releaseCamera w h c)) s) \<subseteq> {Ended}"
    unfolding eq by auto
  show "length (tracks (fst (releaseCamera w h c)) s) = length (tracks w s)"
    unfolding eq by simp
next
  assume other: "\<not> (currentConsumer w = Some c \<and> streamInstance w \<noteq> None)"
  note eq = releaseCamera_other [OF other, of h]
  show "currentConsumer (fst (releaseCamera w h c)) = currentConsumer w"
    unfolding eq by simp
  show "streamInstance (fst (releaseCamera w h c)) = streamInstance w"
    unfolding eq by simp
  show "tracks (fst (releaseCamera w h c)) = tracks w"
    unfolding eq by simp
  show "snd (releaseCamera w h c) =
            (if consumerIdRef h = Some c
             then h\<lparr>stream := None, error := None, isLoading := False\<rparr> else h)"
    unfolding eq by simp
qed

text \<open>
  Releasing twice: the second call, by the consumer that has already released, finds
  no lease and changes nothing but the log of calls.
\<close>

lemma release_twice:
  assumes "currentConsumer w = Some c" and "streamInstance w = Some s"
      and "consumerIdRef h = Some c"
  shows "releaseCamera (fst (releaseCamera w h c)) (snd (releaseCamera w h c)) c
           = ((fst (releaseCamera w h c))
                \<lparr>releaseLog := releaseLog w @ [c, c]\<rparr>,
              snd (releaseCamera w h c))"
  using assms
  by (simp add: releaseCamera_holder [OF assms(1,2)] releaseCamera_other)

text \<open>
  C5 as stated fails for a caller that has not requested through its hook instance:
  \<open>faceRegistration\<close> holds stream 1, a hook instance is mounted (its stream cell
  starts as \<open>streamInstance\<close>, stream 1) and calls \<open>releaseCamera('faceDetection')\<close>
  without having requested. Neither branch runs, and the instance's stream cell still
  holds stream 1.
\<close>

theorem releaseCamera_local_reset_counterexample:
  "currentConsumer (heldBy ''faceRegistration'' 1) \<noteq> Some ''faceDetection''
   \<and> stream (useCameraManager_init (heldBy ''faceRegistration'' 1)) = Some 1
   \<and> snd (releaseCamera (heldBy ''faceRegistration'' 1)
            (useCameraManager_init (heldBy ''faceRegistration'' 1)) ''faceDetection'')
       = useCameraManager_init (heldBy ''faceRegistration'' 1)
   \<and> stream (snd (releaseCamera (heldBy ''faceRegistration'' 1)
            (useCameraManager_init (heldBy ''faceRegistration'' 1)) ''faceDetection'')) = Some 1"
  by (simp add: releaseCamera_def heldBy_simps useCameraManager_init_def)

text \<open>
  The amended C5 at concrete inputs: \<open>faceDetection\<close> releases the stream 1 that it
  holds; and \<open>faceDetection\<close>, whose request was denied because
  \<open>faceRegistration\<close> holds stream 1, releases: the lease is untouched and the
  instance's error is cleared.
\<close>

theorem releaseCamera_semantics_witness:
  "currentConsumer (fst (releaseCamera (heldBy ''faceDetection'' 1)
         (hookAfter ''faceDetection'' 1) ''faceDetection'')) = None
   \<and> streamInstance (fst (releaseCamera (heldBy ''faceDetection'' 1)
         (hookAfter ''faceDetection'' 1) ''faceDetection'')) = None
   \<and> tracks (fst (releaseCamera (heldBy ''faceDetection'' 1)
         (hookAfter ''faceDetection'' 1) ''faceDetection'')) 1 = [Ended]
   \<and> snd (releaseCamera (heldBy ''faceDetection'' 1)
         (hookAfter ''faceDetection'' 1) ''faceDetection'')
       = \<lparr>isLoading = False, error = None, stream = None,
          consumerIdRef = Some ''faceDetection''\<rparr>
   \<and> error deniedHook
       = Some ''Camera is currently in use by another feature (faceRegistration).''
   \<and> currentConsumer (fst (releaseCamera (heldBy ''faceRegistration'' 1) deniedHook
         ''faceDetection'')) = Some ''faceRegistration''
   \<and> streamInstance (fst (releaseCamera (heldBy ''faceRegistration'' 1) deniedHook
         ''faceDetection'')) = Some 1
   \<and> tracks (fst (releaseCamera (heldBy ''faceRegistration'' 1) deniedHook
         ''faceDetection'')) 1 = [Live]
   \<and> snd (releaseCamera (heldBy ''faceRegistration'' 1) deniedHook ''faceDetection'')
       = \<lparr>isLoading = False, error = None, stream = None,
          consumerIdRef = Some ''faceDetection''\<rparr>"
proof -
  have dh: "deniedHook
      = \<lparr>isLoading = False,
         error = Some ''Camera is currently in use by another feature (faceRegistration).'',
         stream = Some 1, consumerIdRef = Some ''faceDetection''\<rparr>"
    by (simp add: deniedHook_def requestCamera_def requestCamera_enter_def heldBy_simps
          useCameraManager_init_def)
  show ?thesis
    using releaseCamera_semantics [of "heldBy ''faceDetection'' 1" "''faceDetection''" 1
            "hookAfter ''faceDetection'' 1"]
          releaseCamera_semantics [of "heldBy ''faceRegistration'' 1" "''faceDetection''" 1
            deniedHook]
    by (simp add: heldBy_simps hookAfter_eq dh)
qed

text \<open>
  C2, the code at the failing input. No lease exists and the browser fails the
  preferred constraint set but would grant the minimal one. \<open>requestCamera\<close> returns
  \<open>null\<close> after a single \<open>getUserMedia\<close> call with the preferred set; the
  verification dialog's \<open>initializeCamera\<close>, with the same browser, makes the second
  call and gets the stream.
\<close>

theorem requestCamera_no_fallback:
  "requestCamera (preferredFails 1) world0 (useCameraManager_init world0) ''faceDetection''
     = (None, world0\<lparr>gumLog := [Preferred]\<rparr>,
        \<lparr>isLoading = False, error = Some ''Camera is already in use.'',
         stream = None, consumerIdRef = Some ''faceDetection''\<rparr>)
   \<and> streamRef (snd (initializeCamera (preferredFails 1) True world0 fv0)) = Some 1
   \<and> gumLog (fst (initializeCamera (preferredFails 1) True world0 fv0)) = [Preferred, Minimal]"
  by (simp add: requestCamera_def requestCamera_enter_def world0_def useCameraManager_init_def
        preferredFails_def initializeCamera_def attachStream_def fv0_def)

text \<open>
  C3, the code at the failing input. A hook instance is mounted (its effect reads
  \<open>consumerIdRef.current\<close>, still \<open>null\<close>), then requests the camera as
  \<open>examPreview\<close> and is granted stream 1, then is unmounted without an explicit
  release. The cleanup calls nothing: \<open>releaseCamera\<close> has not been invoked, the
  lease is still \<open>examPreview\<close>'s, and \<open>requestCamera('faceDetection')\<close> returns
  \<open>null\<close>.
\<close>

theorem unmount_cleanup_releases_nothing:
  "useCameraManager_effect (useCameraManager_init world0) = None
   \<and> requestCamera (grantStream 1) world0 (useCameraManager_init world0) ''examPreview''
       = (Some 1, heldBy ''examPreview'' 1, hookAfter ''examPreview'' 1)
   \<and> useCameraManager_cleanup (useCameraManager_effect (useCameraManager_init world0))
        (heldBy ''examPreview'' 1) (hookAfter ''examPreview'' 1)
       = (heldBy ''examPreview'' 1, hookAfter ''examPreview'' 1)
   \<and> releaseLog (heldBy ''examPreview'' 1) = []
   \<and> currentConsumer (heldBy ''examPreview'' 1) = Some ''examPreview''
   \<and> fst (requestCamera (grantStream 2) (heldBy ''examPreview'' 1)
            (useCameraManager_init (heldBy ''examPreview'' 1)) ''faceDetection'') = None"
  by (simp add: request_world0 useCameraManager_effect_def useCameraManager_cleanup_def
        heldBy_simps requestCamera_denied)
     (simp add: useCameraManager_init_def)

text \<open>
  The same for every state: the cleanup of an instance whose effect ran at mount
  does nothing.
\<close>

lemma useCameraManager_cleanup_fresh:
  "useCameraManager_cleanup (useCameraManager_effect (useCameraManager_init w0)) w h = (w, h)"
  by (simp add: useCameraManager_cleanup_def useCameraManager_effect_def
        useCameraManager_init_def)

text \<open>
  The monitoring hook's own cleanup does release: it calls \<open>releaseCamera(hookId)\<close>
  itself, after which another consumer's request is granted.
\<close>

lemma useFaceDetection_cleanup_releases:
  assumes "currentConsumer w = Some hookId" and "streamInstance w = Some s"
  shows "currentConsumer (fst (useFaceDetection_cleanup w h fd)) = None"
    and "streamInstance (fst (useFaceDetection_cleanup w h fd)) = None"
    and "tracks (fst (useFaceDetection_cleanup w h fd)) s = map (\<lambda>_. Ended) (tracks w s)"
    and "releaseLog (fst (useFaceDetection_cleanup w h fd)) = releaseLog w @ [hookId]"
    and "fst (requestCamera (grantStream s') (fst (useFaceDetection_cleanup w h fd)) h' c) = Some s'"
  using assms
  by (simp_all add: useFaceDetection_cleanup_def releaseCamera_def stopTracks_def
        requestCamera_def requestCamera_enter_def grantStream_def Let_def)

text \<open>
  C6 (amended). In \<open>startMonitoring\<close>, when the camera request returns a stream and
  \<open>setupFaceMesh\<close> then returns \<open>false\<close>, \<open>startMonitoring\<close> returns \<open>false\<close> and
  the module state is exactly what the camera request left: \<open>faceDetection\<close> still
  holds the lease on the stream, no track has been stopped, \<open>releaseCamera\<close> has not
  been called.
\<close>

theorem startMonitoring_keeps_lease:
  assumes "\<not> isMonitoringNow"
      and "requestCamera g w h hookId = (Some s, w1, h1)"
      and "fst (setupFaceMesh cameraStream env fd) = False"
  shows "startMonitoring isMonitoringNow cameraStream g env w h fd
           = (False, w1, h1, snd (setupFaceMesh cameraStream env fd))
         \<and> currentConsumer w1 = Some hookId \<and> streamInstance w1 = Some s"
proof -
  from assms(2) have l: "currentConsumer w1 = Some hookId \<and> streamInstance w1 = Some s"
    by (rule requestCamera_Some_lease)
  from assms l show ?thesis
    by (cases "setupFaceMesh cameraStream env fd") (simp add: startMonitoring_def)
qed

text \<open>
  C6 as stated fails, on the path that the component takes. On mount
  \<open>startMonitoring\<close> is granted stream 1 and \<open>setupFaceMesh\<close> returns \<open>false\<close>
  (its closure still has no stream); stream 1 stays leased. After the re-render
  \<open>startMonitoring\<close> runs again with stream 1 in its closure, the camera request
  returns stream 1, the detector's constructor throws and \<open>startMonitoring\<close>
  returns \<open>false\<close>; stream 1 is still leased to \<open>faceDetection\<close>, its track is
  live and no release has been made.
\<close>

theorem rollback_counterexample:
  "startMonitoring False None (grantStream 1) detectorThrows world0
      (useCameraManager_init world0) fd0
     = (False, heldBy ''faceDetection'' 1, hookAfter ''faceDetection'' 1, fd0)
   \<and> startMonitoring False (Some 1) (grantStream 2) detectorThrows
        (heldBy ''faceDetection'' 1) (hookAfter ''faceDetection'' 1) fd0
     = (False, heldBy ''faceDetection'' 1, hookAfter ''faceDetection'' 1, fd0)
   \<and> currentConsumer (heldBy ''faceDetection'' 1) = Some ''faceDetection''
   \<and> streamInstance (heldBy ''faceDetection'' 1) = Some 1
   \<and> tracks (heldBy ''faceDetection'' 1) 1 = [Live]
   \<and> releaseLog (heldBy ''faceDetection'' 1) = []"
  by (simp add: startMonitoring_def hookId_def request_world0 rerequest_held setupFaceMesh_def
        detectorThrows_def heldBy_simps fd0_def)

text \<open>
  The amended C6 at the second of these calls.
\<close>

theorem startMonitoring_keeps_lease_witness:
  "startMonitoring False (Some 1) (grantStream 2) detectorThrows
      (heldBy hookId 1) (hookAfter hookId 1) fd0
     = (False, heldBy hookId 1, hookAfter hookId 1, fd0)
   \<and> currentConsumer (heldBy hookId 1) = Some hookId
   \<and> streamInstance (heldBy hookId 1) = Some 1"
proof -
  have a: "\<not> False" by simp
  have sf: "setupFaceMesh (Some 1) detectorThrows fd0 = (False, fd0)"
    by (simp add: setupFaceMesh_def detectorThrows_def fd0_def)
  have b: "fst (setupFaceMesh (Some 1) detectorThrows fd0) = False"
    by (simp only: sf fst_conv)
  show ?thesis
    using startMonitoring_keeps_lease [OF a rerequest_held [of "grantStream 2" hookId 1] b]
    unfolding sf by simp
qed

section \<open>Properties of the frame sampler\<close>

lemma frameStep_inv: "samplerInv fd \<Longrightarrow> samplerInv (frameStep e fd)"
  by (cases e) (auto simp: samplerInv_def onFrame_enter_def onFrame_settle_def split: if_splits)

lemma runFrames_inv: "samplerInv fd \<Longrightarrow> samplerInv (runFrames es fd)"
  by (induction es arbitrary: fd) (simp_all add: frameStep_inv)

lemma tick_skipped: "samplerInv fd \<Longrightarrow> inFlight fd = 1 \<Longrightarrow> frameStep (Tick v r) fd = fd"
  by (auto simp: samplerInv_def onFrame_enter_def split: if_splits)

text \<open>
  C7. From a state with no \<open>send\<close> pending, after any sequence of ticks and
  settlings, and at every point of it, at most one \<open>send\<close> is pending; and a tick
  that arrives while one is pending changes nothing: no \<open>send\<close> is issued.
\<close>

theorem at_most_one_inference_in_flight:
  assumes "inFlight fd = 0" and "\<not> isProcessingRef fd"
  shows "inFlight (runFrames (take n es) fd) \<le> 1
         \<and> (inFlight (runFrames es fd) = 1 \<longrightarrow>
              frameStep (Tick videoPresent readyState) (runFrames es fd) = runFrames es fd)"
proof -
  from assms have i0: "samplerInv fd" by (simp add: samplerInv_def)
  have "samplerInv (runFrames (take n es) fd)" using i0 by (rule runFrames_inv)
  then have a: "inFlight (runFrames (take n es) fd) \<le> 1"
    by (simp add: samplerInv_def split: if_splits)
  have "samplerInv (runFrames es fd)" using i0 by (rule runFrames_inv)
  then have b: "inFlight (runFrames es fd) = 1 \<longrightarrow>
      frameStep (Tick videoPresent readyState) (runFrames es fd) = runFrames es fd"
    using tick_skipped by blast
  from a b show ?thesis by simp
qed

text \<open>
  C7 at a concrete run: two ticks in a row issue one \<open>send\<close>; the second tick, and a
  third, are skipped.
\<close>

theorem at_most_one_inference_in_flight_witness:
  "inFlight (runFrames (take 3 [Tick True 4, Tick True 4, Settled, Tick True 4]) fdReady) \<le> 1
   \<and> inFlight (runFrames [Tick True 4, Tick True 4] fdReady) = 1
   \<and> sendCount (runFrames [Tick True 4, Tick True 4] fdReady) = 1
   \<and> frameStep (Tick True 4) (runFrames [Tick True 4, Tick True 4] fdReady)
       = runFrames [Tick True 4, Tick True 4] fdReady"
proof -
  have a: "inFlight fdReady = 0" by (simp add: fdReady_def fd0_def)
  have b: "\<not> isProcessingRef fdReady" by (simp add: fdReady_def fd0_def)
  have c: "inFlight (runFrames [Tick True 4, Tick True 4] fdReady) = 1"
    by (simp add: fdReady_def fd0_def onFrame_enter_def)
  have d: "sendCount (runFrames [Tick True 4, Tick True 4] fdReady) = 1"
    by (simp add: fdReady_def fd0_def onFrame_enter_def)
  show ?thesis
    using at_most_one_inference_in_flight [OF a b, of 3
            "[Tick True 4, Tick True 4, Settled, Tick True 4]" True 4]
          at_most_one_inference_in_flight [OF a b, of 0 "[Tick True 4, Tick True 4]" True 4]
          c d
    by simp
qed

text \<open>
  The sampler is not stuck: once the pending \<open>send\<close> has settled, the next tick
  issues a new one.
\<close>

lemma sends_resume_after_settle:
  "sendCount (runFrames [Tick True 4, Tick True 4, Settled, Tick True 4] fdReady) = 2"
  by (simp add: fdReady_def fd0_def onFrame_enter_def onFrame_settle_def)

section \<open>Properties of the violation state machine\<close>

lemma applyKind_other:
  "k' \<noteq> k \<Longrightarrow> trackOf (applyKind cfg f k' s) k = trackOf s k"
  "k' \<noteq> k \<Longrightarrow> reportsOf k (applyKind cfg f k' s) = reportsOf k s"
  by (simp_all add: applyKind_def report_def reportsOf_def Let_def split: prod.splits)

lemma applyKind_same:
  "trackOf (applyKind cfg f k s) k
     = fst (trackStep cfg (timestamp f) (conditionActive cfg f k) (trackOf s k))"
  "reportsOf k (applyKind cfg f k s)
     = (if snd (trackStep cfg (timestamp f) (conditionActive cfg f k) (trackOf s k))
        then (Suc (fst (reportsOf k s)), Suc (snd (reportsOf k s))) else reportsOf k s)"
  by (simp_all add: applyKind_def report_def reportsOf_def Let_def split: prod.splits)

lemma processFrame_kind:
  "trackOf (processFrame cfg f s) k
     = fst (trackStep cfg (timestamp f) (conditionActive cfg f k) (trackOf s k))"
  "reportsOf k (processFrame cfg f s)
     = (if snd (trackStep cfg (timestamp f) (conditionActive cfg f k) (trackOf s k))
        then (Suc (fst (reportsOf k s)), Suc (snd (reportsOf k s))) else reportsOf k s)"
  by (cases k; simp add: processFrame_def allKinds_def applyKind_other applyKind_same)+

lemma accumulating_holds:
  assumes "phase (trackOf s k) = ACCUMULATING" and "activeSince (trackOf s k) = t0"
      and "\<forall>f \<in> set fs. conditionActive cfg f k \<and> timestamp f - t0 < sustainedDurationMs cfg"
  shows "phase (trackOf (processFrames cfg fs s) k) = ACCUMULATING
         \<and> activeSince (trackOf (processFrames cfg fs s) k) = t0
         \<and> reportsOf k (processFrames cfg fs s) = reportsOf k s"
  using assms
proof (induction fs arbitrary: s)
  case Nil
  then show ?case by simp
next
  case (Cons f fs)
  have step: "phase (trackOf (processFrame cfg f s) k) = ACCUMULATING
      \<and> activeSince (trackOf (processFrame cfg f s) k) = t0
      \<and> reportsOf k (processFrame cfg f s) = reportsOf k s"
    using Cons.prems
    by (simp add: processFrame_kind trackStep_def observe_def fire_def)
  with Cons.IH [of "processFrame cfg f s"] Cons.prems(3) show ?case by simp
qed

text \<open>
  C8. For every kind \<open>k\<close> whose machine is \<open>INACTIVE\<close>: when the condition is
  active on the frames \<open>fs\<close>, all of them less than the sustained duration after
  the first, and clear on the next frame \<open>g\<close>, then no report of kind \<open>k\<close> has been
  made, neither to the service nor to the callback, and the machine is \<open>INACTIVE\<close>
  again.
\<close>

theorem debounce:
  assumes "phase (trackOf s k) = INACTIVE"
      and "\<forall>f \<in> set fs. conditionActive cfg f k
                          \<and> timestamp f - timestamp (hd fs) < sustainedDurationMs cfg"
      and "\<not> conditionActive cfg g k"
  shows "reportsOf k (processFrames cfg (fs @ [g]) s) = reportsOf k s
         \<and> phase (trackOf (processFrames cfg (fs @ [g]) s) k) = INACTIVE"
proof (cases fs)
  case Nil
  with assms(1,3) show ?thesis
    by (simp add: processFrame_kind trackStep_def observe_def fire_def)
next
  case (Cons f0 fs')
  let ?s1 = "processFrame cfg f0 s"
  have f0: "conditionActive cfg f0 k" using assms(2) Cons by simp
  have s1: "phase (trackOf ?s1 k) = ACCUMULATING" "activeSince (trackOf ?s1 k) = timestamp f0"
    "reportsOf k ?s1 = reportsOf k s"
    using assms(1) f0 by (simp_all add: processFrame_kind trackStep_def observe_def fire_def)
  have rest: "\<forall>f \<in> set fs'. conditionActive cfg f k
                 \<and> timestamp f - timestamp f0 < sustainedDurationMs cfg"
    using assms(2) Cons by simp
  let ?s2 = "processFrames cfg fs' ?s1"
  have s2: "phase (trackOf ?s2 k) = ACCUMULATING \<and> activeSince (trackOf ?s2 k) = timestamp f0
      \<and> reportsOf k ?s2 = reportsOf k ?s1"
    by (rule accumulating_holds [OF s1(1) s1(2) rest])
  have app: "processFrames cfg (fs @ [g]) s = processFrame cfg g ?s2"
    unfolding Cons by (induction fs' arbitrary: s f0) simp_all
  show ?thesis
    unfolding app using s2 s1(3) assms(3)
    by (simp add: processFrame_kind trackStep_def observe_def fire_def)
qed

text \<open>
  C8 at a concrete input, with the default durations: no face at 5000 ms and at
  5100 ms, one face again at 5200 ms. Nothing is reported.
\<close>

theorem debounce_witness:
  "reportsOf FACE_NOT_DETECTED
     (processFrames defaultConfig [frameAt 5000 0, frameAt 5100 0, frameAt 5200 1] initialSession)
     = (0, 0)
   \<and> phase (trackOf (processFrames defaultConfig
               [frameAt 5000 0, frameAt 5100 0, frameAt 5200 1] initialSession)
             FACE_NOT_DETECTED) = INACTIVE"
proof -
  have a: "phase (trackOf initialSession FACE_NOT_DETECTED) = INACTIVE"
    by (simp add: initialSession_def initialTrack_def)
  have b: "\<forall>f \<in> set [frameAt 5000 0, frameAt 5100 0].
             conditionActive defaultConfig f FACE_NOT_DETECTED
             \<and> timestamp f - timestamp (hd [frameAt 5000 0, frameAt 5100 0])
                 < sustainedDurationMs defaultConfig"
    by (simp add: frameAt_def defaultConfig_def LOOKING_AWAY_DURATION_MS_def)
  have c: "\<not> conditionActive defaultConfig (frameAt 5200 1) FACE_NOT_DETECTED"
    by (simp add: frameAt_def)
  have d: "reportsOf FACE_NOT_DETECTED initialSession = (0, 0)"
    by (simp add: reportsOf_def initialSession_def)
  show ?thesis using debounce [OF a b c] d by simp
qed

lemma reportsOf_initial: "reportsOf k initialSession = (0, 0)"
  by (simp add: reportsOf_def initialSession_def)

lemma trackOf_initial: "trackOf initialSession k = initialTrack"
  by (simp add: initialSession_def)

text \<open>
  The machine does report a condition that lasts: no face from 5000 ms to 6500 ms is
  reported once.
\<close>

lemma sustained_condition_reports_once:
  "reportsOf FACE_NOT_DETECTED
     (processFrames defaultConfig
        [frameAt 5000 0, frameAt 5500 0, frameAt 6000 0, frameAt 6500 0] initialSession)
     = (1, 1)"
  by (simp add: processFrame_kind trackStep_def observe_def fire_def frameAt_def
        defaultConfig_def LOOKING_AWAY_DURATION_MS_def COOLDOWN_PERIOD_MS_def
        reportsOf_initial trackOf_initial initialTrack_def)

section \<open>Properties of the violation reporter\<close>

text \<open>
  The collaborator signals a failed delivery by throwing: every method of the service
  turns a failed call into its own \<open>Error\<close>.
\<close>

lemma submitWebcamMonitorEvent_result:
  "(post (''/student/attempts/'' @ attemptId @ ''/monitor'') ev = HttpFail \<longrightarrow>
      submitWebcamMonitorEvent post attemptId ev
        = Inl (Error ''Failed to submit webcam monitor event''))
   \<and> (post (''/student/attempts/'' @ attemptId @ ''/monitor'') ev = HttpOk ack \<longrightarrow>
      submitWebcamMonitorEvent post attemptId ev = Inr ack)"
  by (simp add: submitWebcamMonitorEvent_def)

text \<open>
  C9. Whatever the delivery does, \<open>report\<close> does not throw to its caller and the
  host's callback has been invoked with the kind. When the delivery fails (the
  service throws), the failure is logged locally and swallowed: \<open>report\<close> completes
  with no acknowledgement. When the delivery succeeds, \<open>report\<close> completes with the
  server's acknowledgement and logs nothing.
\<close>

theorem report_is_best_effort:
  "(\<forall>e. fst (reportViolation post attemptId kind t detail rp) \<noteq> Inl e)
   \<and> callbackLog (snd (reportViolation post attemptId kind t detail rp))
       = callbackLog rp @ [kind]
   \<and> (post (''/student/attempts/'' @ attemptId @ ''/monitor'')
          \<lparr>eventType = kind, eventTimestamp = t, details = detail\<rparr> = HttpFail \<longrightarrow>
        fst (reportViolation post attemptId kind t detail rp) = Inr None
        \<and> localLog (snd (reportViolation post attemptId kind t detail rp))
            = localLog rp @ [''Failed to submit webcam monitor event''])
   \<and> (post (''/student/attempts/'' @ attemptId @ ''/monitor'')
          \<lparr>eventType = kind, eventTimestamp = t, details = detail\<rparr> = HttpOk ack \<longrightarrow>
        fst (reportViolation post attemptId kind t detail rp) = Inr (Some ack)
        \<and> localLog (snd (reportViolation post attemptId kind t detail rp)) = localLog rp)"
proof -
  let ?ev = "\<lparr>eventType = kind, eventTimestamp = t, details = detail\<rparr>"
  let ?url = "''/student/attempts/'' @ attemptId @ ''/monitor''"
  show ?thesis
  proof (cases "post ?url ?ev")
    case (HttpOk a)
    then have "submitWebcamMonitorEvent post attemptId ?ev = Inr a"
      by (simp add: submitWebcamMonitorEvent_def)
    with HttpOk show ?thesis
      by (simp add: reportViolation_def)
  next
    case HttpFail
    then have "submitWebcamMonitorEvent post attemptId ?ev
                 = Inl (Error ''Failed to submit webcam monitor event'')"
      by (simp add: submitWebcamMonitorEvent_def)
    with HttpFail show ?thesis
      by (simp add: reportViolation_def)
  qed
qed

text \<open>
  C9 at two concrete inputs: with the network down the report completes without an
  acknowledgement, the callback has been invoked and the failure is in the local log;
  with a server that acknowledges, the report completes with the acknowledgement.
\<close>

theorem report_is_best_effort_witness:
  "submitWebcamMonitorEvent networkDown ''attempt-123'' sampleEvent
     = Inl (Error ''Failed to submit webcam monitor event'')
   \<and> reportViolation networkDown ''attempt-123'' ''FACE_NOT_DETECTED''
        ''2025-05-15T10:30:00Z'' [] reporter0
     = (Inr None, \<lparr>localLog = [''Failed to submit webcam monitor event''],
                   callbackLog = [''FACE_NOT_DETECTED'']\<rparr>)
   \<and> reportViolation serverAcks ''attempt-123'' ''FACE_NOT_DETECTED''
        ''2025-05-15T10:30:00Z'' [] reporter0
     = (Inr (Some \<lparr>received = True, severity = ''low'', message = ''ok''\<rparr>),
        \<lparr>localLog = [], callbackLog = [''FACE_NOT_DETECTED'']\<rparr>)"
proof -
  have down: "networkDown (''/student/attempts/'' @ ''attempt-123'' @ ''/monitor'')
                \<lparr>eventType = ''FACE_NOT_DETECTED'', eventTimestamp = ''2025-05-15T10:30:00Z'',
                  details = []\<rparr> = HttpFail"
    by (simp add: networkDown_def)
  have up: "serverAcks (''/student/attempts/'' @ ''attempt-123'' @ ''/monitor'')
                \<lparr>eventType = ''FACE_NOT_DETECTED'', eventTimestamp = ''2025-05-15T10:30:00Z'',
                  details = []\<rparr>
              = HttpOk \<lparr>received = True, severity = ''low'', message = ''ok''\<rparr>"
    by (simp add: serverAcks_def)
  have coll: "submitWebcamMonitorEvent networkDown ''attempt-123'' sampleEvent
                = Inl (Error ''Failed to submit webcam monitor event'')"
    by (simp add: submitWebcamMonitorEvent_def networkDown_def)
  show ?thesis
    using report_is_best_effort [of networkDown "''attempt-123''" "''FACE_NOT_DETECTED''"
            "''2025-05-15T10:30:00Z''" "[]" reporter0]
          report_is_best_effort [of serverAcks "''attempt-123''" "''FACE_NOT_DETECTED''"
            "''2025-05-15T10:30:00Z''" "[]" reporter0
            "\<lparr>received = True, severity = ''low'', message = ''ok''\<rparr>"]
          down up coll
    by (auto simp: reporter0_def prod_eq_iff)
qed

section \<open>Properties of the student service\<close>

text \<open>
  The threshold is the double below seven tenths by one part in \<open>5 * 2^52\<close>; no
  double lies between the two.
\<close>

lemma CONFIDENCE_THRESHOLD_value:
  "CONFIDENCE_THRESHOLD = 7 / 10 - 1 / (5 * 2 ^ 52)"
  "CONFIDENCE_THRESHOLD < 7 / 10"
  by (simp_all add: CONFIDENCE_THRESHOLD_def)

text \<open>
  C10. A response that is a non-empty array is judged by its first element, and a
  response that is a single object by that object. For the record \<open>r\<close> so chosen,
  \<open>verifyFaceIdentity\<close> returns \<open>r\<close>'s fields together with \<open>verified\<close>, which is
  true exactly when \<open>r\<close>'s confidence is at least the number \<open>0.7\<close> and \<open>r\<close>'s name
  and the expected name are equal once both are lower-cased, and \<open>nameMatches\<close>,
  which is exactly that comparison of names, whatever the confidence. For the empty
  array, and when the call fails, the function throws and returns no \<open>verified\<close>.
  This holds for every lower-casing function.
\<close>

theorem verifyFaceIdentity_decision_rule:
  "(res = HttpOk (DataArray (r # rs)) \<or> res = HttpOk (DataObject r) \<longrightarrow>
      (\<exists>v. verifyFaceIdentity toLowerCase res expectedName = Inr v
           \<and> verified v = (confidence r \<ge> CONFIDENCE_THRESHOLD
                           \<and> toLowerCase (name r) = toLowerCase expectedName)
           \<and> nameMatches v = (toLowerCase (name r) = toLowerCase expectedName)
           \<and> faceId v = faceId r \<and> name v = name r \<and> confidence v = confidence r
           \<and> registered_at v = registered_at r))
   \<and> (res = HttpOk (DataArray []) \<or> res = HttpFail \<longrightarrow>
        verifyFaceIdentity toLowerCase res expectedName
          = Inl (Error ''Failed to verify face identity''))"
proof (intro conjI impI)
  assume "res = HttpOk (DataArray (r # rs)) \<or> res = HttpOk (DataObject r)"
  then have sel: "\<exists>d. res = HttpOk d \<and> responseData d = Some r"
    by auto
  then obtain d where d: "res = HttpOk d" "responseData d = Some r"
    by blast
  show "\<exists>v. verifyFaceIdentity toLowerCase res expectedName = Inr v
           \<and> verified v = (confidence r \<ge> CONFIDENCE_THRESHOLD
                           \<and> toLowerCase (name r) = toLowerCase expectedName)
           \<and> nameMatches v = (toLowerCase (name r) = toLowerCase expectedName)
           \<and> faceId v = faceId r \<and> name v = name r \<and> confidence v = confidence r
           \<and> registered_at v = registered_at r"
    using d
    by (simp add: verifyFaceIdentity_def Let_def FaceVerificationResponse.defs
          VerifiedResponse.defs)
next
  assume "res = HttpOk (DataArray []) \<or> res = HttpFail"
  then show "verifyFaceIdentity toLowerCase res expectedName
               = Inl (Error ''Failed to verify face identity'')"
    by (auto simp: verifyFaceIdentity_def)
qed

text \<open>
  C10 at concrete inputs, with the lower-casing of Latin-1 text. An array of two
  faces whose first is the accented name at confidence 0.93 is verified against the
  same name in upper case; the same face at exactly the threshold is verified; at
  0.69 it is not verified but the name matches; an array whose first face is another
  person is neither; the empty array throws.
\<close>

theorem verifyFaceIdentity_decision_rule_witness:
  "(\<exists>v. verifyFaceIdentity latin1ToLowerCase
           (HttpOk (DataArray [registeredFace (93 / 100), otherFace])) nameUpper = Inr v
        \<and> verified v \<and> nameMatches v)
   \<and> (\<exists>v. verifyFaceIdentity latin1ToLowerCase
           (HttpOk (DataObject (registeredFace CONFIDENCE_THRESHOLD))) nameUpper = Inr v
        \<and> verified v \<and> nameMatches v)
   \<and> (\<exists>v. verifyFaceIdentity latin1ToLowerCase
           (HttpOk (DataObject (registeredFace (69 / 100)))) nameUpper = Inr v
        \<and> \<not> verified v \<and> nameMatches v)
   \<and> (\<exists>v. verifyFaceIdentity latin1ToLowerCase
           (HttpOk (DataArray [otherFace, registeredFace (93 / 100)])) nameUpper = Inr v
        \<and> \<not> verified v \<and> \<not> nameMatches v)
   \<and> verifyFaceIdentity latin1ToLowerCase (HttpOk (DataArray [])) nameUpper
       = Inl (Error ''Failed to verify face identity'')"
proof -
  have m: "latin1ToLowerCase (name (registeredFace c)) = latin1ToLowerCase nameUpper" for c
    by (simp add: registeredFace_def nameLower_def nameUpper_def latin1ToLowerCase_def
          latin1LowerUnit_def)
  have n: "latin1ToLowerCase (name otherFace) \<noteq> latin1ToLowerCase nameUpper"
    by (simp add: otherFace_def nameOther_def nameUpper_def latin1ToLowerCase_def)
  have c1: "confidence (registeredFace (93 / 100)) \<ge> CONFIDENCE_THRESHOLD"
    by (simp add: registeredFace_def CONFIDENCE_THRESHOLD_def)
  have c2: "confidence (registeredFace CONFIDENCE_THRESHOLD) \<ge> CONFIDENCE_THRESHOLD"
    by (simp add: registeredFace_def)
  have c3: "\<not> confidence (registeredFace (69 / 100)) \<ge> CONFIDENCE_THRESHOLD"
    by (simp add: registeredFace_def CONFIDENCE_THRESHOLD_def)
  show ?thesis
    using verifyFaceIdentity_decision_rule
            [of "HttpOk (DataArray [registeredFace (93 / 100), otherFace])"
                "registeredFace (93 / 100)" "[otherFace]" latin1ToLowerCase nameUpper]
          verifyFaceIdentity_decision_rule
            [of "HttpOk (DataObject (registeredFace CONFIDENCE_THRESHOLD))"
                "registeredFace CONFIDENCE_THRESHOLD" "[]" latin1ToLowerCase nameUpper]
          verifyFaceIdentity_decision_rule
            [of "HttpOk (DataObject (registeredFace (69 / 100)))"
                "registeredFace (69 / 100)" "[]" latin1ToLowerCase nameUpper]
          verifyFaceIdentity_decision_rule
            [of "HttpOk (DataArray [otherFace, registeredFace (93 / 100)])"
                otherFace "[registeredFace (93 / 100)]" latin1ToLowerCase nameUpper]
          verifyFaceIdentity_decision_rule
            [of "HttpOk (DataArray [])" otherFace "[]" latin1ToLowerCase nameUpper]
          m n c1 c2 c3
    by auto
qed

end
